theory Spec2Isabelle
  imports Complex_Main
begin

section \<open>Fine-tuning script \<^verbatim>\<open>EX2/main.py\<close>: data model\<close>

text \<open>
  The script sequences calls into a tensor library. The library is not part of the
  repository, so its operations are parameters of the model (the record \<open>torch\<close>
  below); everything the script itself decides (the order of the calls, the
  bookkeeping of the running totals, the checkpoint policy, the local variables of
  \<^verbatim>\<open>train_model\<close>) is translated line by line. Floating-point numbers are modelled
  as exact reals.
\<close>

datatype phase = train | val

text \<open>The exceptions the script's own statements can raise.\<close>

datatype error =
    ZeroDivisionError   \<comment> \<open>line 79: \<^verbatim>\<open>running_loss / dataset_sizes[phase]\<close> with size 0\<close>
  | AttributeError      \<comment> \<open>line 80: \<^verbatim>\<open>running_corrects\<close> is still the Python int 0\<close>
  | UnboundLocalError   \<comment> \<open>line 94: \<^verbatim>\<open>save_dir\<close> read before any assignment\<close>
  | ParentDirMissing    \<comment> \<open>\<^verbatim>\<open>torch.save\<close> into a directory that does not exist\<close>

text \<open>
  \<^verbatim>\<open>running_corrects\<close> starts as the Python integer 0 (line 55) and becomes a
  tensor with the first \<^verbatim>\<open>+= torch.sum(...)\<close> (line 74); only a tensor has
  \<^verbatim>\<open>.double()\<close>.
\<close>

datatype corrects = PyInt nat | Tensor nat

text \<open>
  What the run does, in order: the two \<^verbatim>\<open>print\<close> statements that carry numbers
  (lines 46 and 82) and the calls into the library that change the model, the
  optimizer, the scheduler or the disk. Every event carries the epoch index.
\<close>

datatype event =
    LearningRate nat real        \<comment> \<open>line 46: epoch, \<^verbatim>\<open>optimizer.param_groups[0]['lr']\<close>\<close>
  | Forward phase nat            \<comment> \<open>line 65: \<^verbatim>\<open>model(inputs)\<close> on one batch\<close>
  | OptimizerStep nat real       \<comment> \<open>lines 70-71: epoch, learning rate in effect\<close>
  | SchedulerStep nat            \<comment> \<open>line 77\<close>
  | Report phase nat real real   \<comment> \<open>line 82: phase, epoch, epoch loss, epoch accuracy\<close>
  | SaveBest nat real            \<comment> \<open>line 90: epoch, accuracy that triggered the write\<close>
  | SaveEpoch nat                \<comment> \<open>line 94: the number in the file name, epoch + 1\<close>

text \<open>
  The library: \<open>'w\<close> is a state dict, \<open>'o\<close> the optimizer's momentum buffers,
  \<open>'g\<close> a gradient, \<open>'x\<close> an image tensor, \<open>'out\<close> a batch of class scores. The
  Boolean argument of \<open>model_call\<close> is the mode set by \<^verbatim>\<open>model.train()\<close> /
  \<^verbatim>\<open>model.eval()\<close>. \<open>criterion\<close> is the parameter of that name of
  \<^verbatim>\<open>train_model\<close>.
\<close>

record ('w, 'o, 'g, 'x, 'out) torch =
  model_call :: "bool \<Rightarrow> 'w \<Rightarrow> 'x list \<Rightarrow> 'out"
  torch_max :: "'out \<Rightarrow> nat list"
  criterion :: "'out \<Rightarrow> nat list \<Rightarrow> real"
  backward :: "'w \<Rightarrow> 'x list \<Rightarrow> nat list \<Rightarrow> 'g"
  optimizer_step :: "real \<Rightarrow> 'g \<Rightarrow> 'o \<Rightarrow> 'w \<Rightarrow> 'w \<times> 'o"

text \<open>
  The state a run of \<^verbatim>\<open>train_model\<close> reads and writes: the objects passed in
  (model, optimizer, scheduler), the function's local variables, the disk and the
  event trace. \<open>save_dir = None\<close> is the unbound local variable.
\<close>

record ('w, 'o, 'g) state =
  weights :: 'w
  training :: bool
  grads :: "'g option"
  opt_state :: 'o
  lr :: real
  last_epoch :: nat
  step_size :: nat
  gamma :: real
  best_model_wts :: 'w
  best_acc :: real
  running_loss :: real
  running_corrects :: corrects
  epoch_loss :: real
  epoch_acc :: real
  save_dir :: "string option"
  dirs :: "string set"
  files :: "string \<Rightarrow> 'w option"
  trace :: "event list"

type_synonym ('w, 'o, 'g) result = "error \<times> ('w, 'o, 'g) state + ('w, 'o, 'g) state"

section \<open>Library calls with a fixed meaning\<close>

text \<open>Python's \<^verbatim>\<open>str\<close> of a non-negative integer, for the f-string of line 94.\<close>

fun str_nat :: "nat \<Rightarrow> string" where
  "str_nat n = (if n < 10 then [char_of (48 + n)]
                else str_nat (n div 10) @ [char_of (48 + n mod 10)])"

declare str_nat.simps [simp del]

definition path_join :: "string \<Rightarrow> string \<Rightarrow> string" where
  "path_join d f = d @ ''/'' @ f"

definition makedirs :: "string \<Rightarrow> ('w, 'o, 'g) state \<Rightarrow> ('w, 'o, 'g) state" where
  "makedirs d st = st\<lparr>dirs := insert d (dirs st)\<rparr>"

text \<open>
  \<^verbatim>\<open>torch.save(model.state_dict(), os.path.join(d, f))\<close>: writes the current
  weights, and fails when the directory is missing.
\<close>

definition torch_save :: "string \<Rightarrow> string \<Rightarrow> ('w, 'o, 'g) state \<Rightarrow> ('w, 'o, 'g) result" where
  "torch_save d f st =
     (if d \<in> dirs st
      then Inr (st\<lparr>files := (files st)(path_join d f \<mapsto> weights st)\<rparr>)
      else Inl (ParentDirMissing, st))"

text \<open>
  \<^verbatim>\<open>StepLR.step()\<close>: the counter advances, and the rate is multiplied by
  \<open>gamma\<close> whenever the new counter is a multiple of \<open>step_size\<close>.
\<close>

definition scheduler_step :: "('w, 'o, 'g) state \<Rightarrow> ('w, 'o, 'g) state" where
  "scheduler_step st =
     (let n = last_epoch st + 1
      in st\<lparr>last_epoch := n,
             lr := (if n mod step_size st = 0 then lr st * gamma st else lr st)\<rparr>)"

text \<open>\<^verbatim>\<open>torch.sum(preds == labels.data)\<close>: the number of positions that agree.\<close>

definition sum_eq :: "nat list \<Rightarrow> nat list \<Rightarrow> nat" where
  "sum_eq preds labels = length (filter (\<lambda>(p, l). p = l) (zip preds labels))"

fun add_corrects :: "corrects \<Rightarrow> nat \<Rightarrow> corrects" where
  "add_corrects (PyInt a) c = Tensor (a + c)"
| "add_corrects (Tensor a) c = Tensor (a + c)"

definition emit :: "event \<Rightarrow> ('w, 'o, 'g) state \<Rightarrow> ('w, 'o, 'g) state" where
  "emit ev st = st\<lparr>trace := trace st @ [ev]\<rparr>"

text \<open>A Python \<^verbatim>\<open>for\<close> loop whose body may raise: the first exception ends it.\<close>

fun for_each :: "('a \<Rightarrow> 's \<Rightarrow> 'e + 's) \<Rightarrow> 'a list \<Rightarrow> 's \<Rightarrow> 'e + 's" where
  "for_each body [] s = Inr s"
| "for_each body (x # xs) s =
     (case body x s of Inl e \<Rightarrow> Inl e | Inr s' \<Rightarrow> for_each body xs s')"

section \<open>\<^verbatim>\<open>train_model\<close>\<close>

text \<open>Lines 59-74: one batch of one phase. A batch is a list of (image, label) samples.\<close>

definition batch_step ::
  "('w, 'o, 'g, 'x, 'out) torch \<Rightarrow> nat \<Rightarrow> phase \<Rightarrow> ('x \<times> nat) list \<Rightarrow>
   ('w, 'o, 'g) state \<Rightarrow> ('w, 'o, 'g) state" where
  "batch_step L epoch ph batch st =
     (let inputs = map fst batch;
          labels = map snd batch;
          st1 = st\<lparr>grads := None\<rparr>;
          outputs = model_call L (training st1) (weights st1) inputs;
          st2 = emit (Forward ph epoch) st1;
          preds = torch_max L outputs;
          loss = criterion L outputs labels;
          st3 = (if ph = train
                 then (let g = backward L (weights st2) inputs labels;
                           (w', o') = optimizer_step L (lr st2) g (opt_state st2) (weights st2)
                       in emit (OptimizerStep epoch (lr st2))
                            (st2\<lparr>grads := Some g, weights := w', opt_state := o'\<rparr>))
                 else st2)
      in st3\<lparr>running_loss := running_loss st3 + loss * real (length inputs),
              running_corrects := add_corrects (running_corrects st3) (sum_eq preds labels)\<rparr>)"

text \<open>Lines 79-82: the epoch summary of a phase and its \<^verbatim>\<open>print\<close>.\<close>

definition summarise ::
  "nat \<Rightarrow> nat \<Rightarrow> phase \<Rightarrow> ('w, 'o, 'g) state \<Rightarrow> ('w, 'o, 'g) result" where
  "summarise sz epoch ph st =
     (if sz = 0 then Inl (ZeroDivisionError, st)
      else (let st1 = st\<lparr>epoch_loss := running_loss st / real sz\<rparr>
            in case running_corrects st1 of
                 PyInt c \<Rightarrow> Inl (AttributeError, st1)
               | Tensor c \<Rightarrow>
                   (let st2 = st1\<lparr>epoch_acc := real c / real sz\<rparr>
                    in Inr (emit (Report ph epoch (epoch_loss st2) (epoch_acc st2)) st2))))"

text \<open>Lines 85-90: the best-so-far checkpoint.\<close>

definition save_best ::
  "nat \<Rightarrow> phase \<Rightarrow> ('w, 'o, 'g) state \<Rightarrow> ('w, 'o, 'g) result" where
  "save_best epoch ph st =
     (if ph = val \<and> epoch_acc st > best_acc st
      then (let st1 = st\<lparr>best_acc := epoch_acc st\<rparr>;
                st2 = st1\<lparr>best_model_wts := weights st1\<rparr>;
                st3 = st2\<lparr>save_dir := Some ''work_dir''\<rparr>;
                st4 = makedirs (the (save_dir st3)) st3
            in case torch_save (the (save_dir st4)) ''best_model.pth'' st4 of
                 Inl e \<Rightarrow> Inl e
               | Inr st5 \<Rightarrow> Inr (emit (SaveBest epoch (best_acc st5)) st5))
      else Inr st)"

text \<open>Lines 93-94: the periodic checkpoint.\<close>

definition save_epoch ::
  "nat \<Rightarrow> phase \<Rightarrow> ('w, 'o, 'g) state \<Rightarrow> ('w, 'o, 'g) result" where
  "save_epoch epoch ph st =
     (if ph = train \<and> (epoch + 1) mod 2 = 0
      then (case save_dir st of
              None \<Rightarrow> Inl (UnboundLocalError, st)
            | Some d \<Rightarrow>
                (case torch_save d (''model_epoch_'' @ str_nat (epoch + 1) @ ''.pth'') st of
                   Inl e \<Rightarrow> Inl e
                 | Inr st1 \<Rightarrow> Inr (emit (SaveEpoch (epoch + 1)) st1)))
      else Inr st)"

text \<open>
  Lines 49-94: the body of \<^verbatim>\<open>for phase in ['train', 'val']\<close>. The globals
  \<^verbatim>\<open>dataloaders\<close> and \<^verbatim>\<open>dataset_sizes\<close> are arguments; a loader is iterated
  afresh in every epoch (it reshuffles), so the batches depend on the epoch.
\<close>

definition run_phase ::
  "('w, 'o, 'g, 'x, 'out) torch \<Rightarrow> (phase \<Rightarrow> nat \<Rightarrow> ('x \<times> nat) list list) \<Rightarrow> (phase \<Rightarrow> nat) \<Rightarrow>
   nat \<Rightarrow> phase \<Rightarrow> ('w, 'o, 'g) state \<Rightarrow> ('w, 'o, 'g) result" where
  "run_phase L dataloaders dataset_sizes epoch ph st =
     (let st1 = st\<lparr>training := (ph = train)\<rparr>;
          st2 = st1\<lparr>running_loss := 0, running_corrects := PyInt 0\<rparr>;
          st3 = fold (batch_step L epoch ph) (dataloaders ph epoch) st2;
          st4 = (if ph = train then emit (SchedulerStep epoch) (scheduler_step st3) else st3)
      in case summarise (dataset_sizes ph) epoch ph st4 of
           Inl e \<Rightarrow> Inl e
         | Inr st5 \<Rightarrow>
             (case save_best epoch ph st5 of
                Inl e \<Rightarrow> Inl e
              | Inr st6 \<Rightarrow> save_epoch epoch ph st6))"

text \<open>Lines 41-96: the body of \<^verbatim>\<open>for epoch in range(num_epochs)\<close>.\<close>

definition run_epoch ::
  "('w, 'o, 'g, 'x, 'out) torch \<Rightarrow> (phase \<Rightarrow> nat \<Rightarrow> ('x \<times> nat) list list) \<Rightarrow> (phase \<Rightarrow> nat) \<Rightarrow>
   nat \<Rightarrow> ('w, 'o, 'g) state \<Rightarrow> ('w, 'o, 'g) result" where
  "run_epoch L dataloaders dataset_sizes epoch st =
     for_each (run_phase L dataloaders dataset_sizes epoch) [train, val]
       (emit (LearningRate epoch (lr st)) st)"

text \<open>
  Lines 34-35: the locals at entry. The model, the optimizer, the scheduler and the
  disk are those of the caller; \<^verbatim>\<open>save_dir\<close> is unbound.
\<close>

definition enter ::
  "('w, 'o, 'g) state \<Rightarrow> ('w, 'o, 'g) state" where
  "enter st = st\<lparr>best_model_wts := weights st, best_acc := 0, save_dir := None, trace := []\<rparr>"

text \<open>Lines 40-96: the loop \<^verbatim>\<open>for epoch in range(num_epochs)\<close>.\<close>

definition epoch_loop ::
  "('w, 'o, 'g, 'x, 'out) torch \<Rightarrow> (phase \<Rightarrow> nat \<Rightarrow> ('x \<times> nat) list list) \<Rightarrow> (phase \<Rightarrow> nat) \<Rightarrow>
   nat \<Rightarrow> ('w, 'o, 'g) state \<Rightarrow> ('w, 'o, 'g) result" where
  "epoch_loop L dataloaders dataset_sizes num_epochs st =
     for_each (run_epoch L dataloaders dataset_sizes) [0..<num_epochs] st"

text \<open>
  Lines 32-103. The state returned has the best snapshot loaded into the model
  (line 102).
\<close>

definition train_model ::
  "('w, 'o, 'g, 'x, 'out) torch \<Rightarrow> (phase \<Rightarrow> nat \<Rightarrow> ('x \<times> nat) list list) \<Rightarrow> (phase \<Rightarrow> nat) \<Rightarrow>
   nat \<Rightarrow> ('w, 'o, 'g) state \<Rightarrow> ('w, 'o, 'g) result" where
  "train_model L dataloaders dataset_sizes num_epochs st =
     (case epoch_loop L dataloaders dataset_sizes num_epochs (enter st) of
        Inl e \<Rightarrow> Inl e
      | Inr st' \<Rightarrow> Inr (st'\<lparr>weights := best_model_wts st'\<rparr>))"

text \<open>The state a run ends in, whether it returns or raises.\<close>

definition final :: "('w, 'o, 'g) result \<Rightarrow> ('w, 'o, 'g) state" where
  "final r = (case r of Inl (e, st) \<Rightarrow> st | Inr st \<Rightarrow> st)"

section \<open>Seeding and the train/validation split (lines 15-28 and 128-131)\<close>

text \<open>
  The generators a run draws from. A generator is identified with the state it is in;
  seeding overwrites that state. \<open>torch_cuda = None\<close> is a machine without an
  accelerator.
\<close>

record rng =
  py_random :: nat
  np_random :: nat
  torch_cpu :: nat
  torch_cuda :: "nat option"
  cudnn_deterministic :: bool
  cudnn_benchmark :: bool

definition cuda_is_available :: "rng \<Rightarrow> bool" where
  "cuda_is_available r = (torch_cuda r \<noteq> None)"

text \<open>Lines 15-23.\<close>

definition set_seed :: "nat \<Rightarrow> rng \<Rightarrow> rng" where
  "set_seed seed r =
     (let r1 = r\<lparr>py_random := seed\<rparr>;
          r2 = r1\<lparr>np_random := seed\<rparr>;
          r3 = r2\<lparr>torch_cpu := seed\<rparr>;
          r4 = (if cuda_is_available r3 then r3\<lparr>torch_cuda := Some seed\<rparr> else r3)
      in r4\<lparr>cudnn_deterministic := True, cudnn_benchmark := False\<rparr>)"

text \<open>Lines 27-28, run in each worker process on the generators it inherited.\<close>

definition worker_init_fn :: "nat \<Rightarrow> rng \<Rightarrow> rng" where
  "worker_init_fn worker_id r = r\<lparr>np_random := 42 + worker_id\<rparr>"

text \<open>
  Line 128: \<^verbatim>\<open>int(0.8 * len(full_dataset))\<close>; \<^verbatim>\<open>int\<close> truncates, which is the
  floor of a non-negative number. Line 129 is a subtraction of Python integers.
\<close>

definition train_size :: "nat \<Rightarrow> int" where
  "train_size n = \<lfloor>0.8 * real n\<rfloor>"

definition val_size :: "nat \<Rightarrow> int" where
  "val_size n = int n - train_size n"

text \<open>
  \<^verbatim>\<open>random_split(dataset, lengths)\<close> of the library: it refuses lengths that do not
  add up to the size of the dataset, and otherwise cuts a random permutation of the
  indices into consecutive slices of the given lengths. The permutation is what
  \<^verbatim>\<open>randperm\<close> returned.
\<close>

datatype split_error = ValueError

fun slices :: "'a list \<Rightarrow> int list \<Rightarrow> 'a list list" where
  "slices xs [] = []"
| "slices xs (l # ls) = take (nat l) xs # slices (drop (nat l) xs) ls"

definition random_split :: "nat list \<Rightarrow> nat \<Rightarrow> int list \<Rightarrow> split_error + nat list list" where
  "random_split perm n lengths =
     (if sum_list lengths \<noteq> int n then Inl ValueError else Inr (slices perm lengths))"

text \<open>Lines 128-131 for a dataset of \<open>n\<close> samples.\<close>

definition main_split :: "nat list \<Rightarrow> nat \<Rightarrow> split_error + nat list list" where
  "main_split perm n = random_split perm n [train_size n, val_size n]"

text \<open>
  Lines 108-131 from an arbitrary state of the generators: the script seeds with 42 and
  the split draws its permutation from the library's default generator. \<open>randperm\<close>
  is the library's function from that generator's state to the permutation.
\<close>

definition seeded_split :: "(nat \<Rightarrow> nat \<Rightarrow> nat list) \<Rightarrow> rng \<Rightarrow> nat \<Rightarrow> split_error + nat list list" where
  "seeded_split randperm r n = main_split (randperm (torch_cpu (set_seed 42 r)) n) n"

text \<open>
  Lines 135-138: the generators of data-loading worker \<open>w\<close>. \<open>spawn\<close> is the library's
  start of a worker from the parent's generators; the script's hook runs after it.
\<close>

definition worker_rng :: "(rng \<Rightarrow> nat \<Rightarrow> rng) \<Rightarrow> nat \<Rightarrow> rng \<Rightarrow> rng" where
  "worker_rng spawn w r = worker_init_fn w (spawn (set_seed 42 r) w)"

section \<open>Reading a trace\<close>

text \<open>The validation accuracies printed, and the best-checkpoint writes, in order.\<close>

definition val_reports :: "event list \<Rightarrow> (nat \<times> real) list" where
  "val_reports tr =
     concat (map (\<lambda>ev. case ev of Report ph e l a \<Rightarrow> (if ph = val then [(e, a)] else [])
                              | _ \<Rightarrow> []) tr)"

definition best_writes :: "event list \<Rightarrow> (nat \<times> real) list" where
  "best_writes tr = concat (map (\<lambda>ev. case ev of SaveBest e a \<Rightarrow> [(e, a)] | _ \<Rightarrow> []) tr)"

definition raised :: "('w, 'o, 'g) result \<Rightarrow> error option" where
  "raised r = (case r of Inl (e, st) \<Rightarrow> Some e | Inr st \<Rightarrow> None)"

section \<open>A small instance\<close>

text \<open>
  A one-weight model for concrete runs: the weight counts the optimizer steps, the
  score of an input \<open>x\<close> is \<open>x * w\<close>, and the predicted class is the score.
\<close>

definition toy :: "(nat, nat, nat, nat, nat list) torch" where
  "toy = \<lparr>model_call = (\<lambda>m w xs. map (\<lambda>x. x * w) xs),
          torch_max = (\<lambda>out. out),
          criterion = (\<lambda>out labels. real (length (filter (\<lambda>(p, l). p \<noteq> l) (zip out labels)))),
          backward = (\<lambda>w xs ys. 1),
          optimizer_step = (\<lambda>r g o' w. (w + g, o' + 1))\<rparr>"

text \<open>One training sample; two validation samples, of which at most one is ever right.\<close>

definition toy_loaders :: "phase \<Rightarrow> nat \<Rightarrow> (nat \<times> nat) list list" where
  "toy_loaders ph e = (if ph = train then [[(1, 1)]] else [[(1, 1), (1, 2)]])"

text \<open>The same, with validation labels the model does not reach in its first epochs.\<close>

definition hard_loaders :: "phase \<Rightarrow> nat \<Rightarrow> (nat \<times> nat) list list" where
  "hard_loaders ph e = (if ph = train then [[(1, 1)]] else [[(1, 7), (1, 9)]])"

definition toy_sizes :: "phase \<Rightarrow> nat" where
  "toy_sizes ph = (if ph = train then 1 else 2)"

text \<open>The objects as lines 147-158 build them: SGD at 0.001, StepLR(7, 0.1), an empty disk.\<close>

definition fresh :: "(nat, nat, nat) state" where
  "fresh = \<lparr>weights = 0, training = False, grads = None, opt_state = 0, lr = 0.001,
            last_epoch = 0, step_size = 7, gamma = 0.1, best_model_wts = 0, best_acc = 0,
            running_loss = 0, running_corrects = PyInt 0, epoch_loss = 0, epoch_acc = 0,
            save_dir = None, dirs = {}, files = Map.empty, trace = []\<rparr>"

section \<open>Auxiliary notions for the proofs\<close>

text \<open>A postcondition for both ways a step can end.\<close>

definition outcome :: "('s \<Rightarrow> bool) \<Rightarrow> ('s \<Rightarrow> bool) \<Rightarrow> 'e \<times> 's + 's \<Rightarrow> bool" where
  "outcome E Q r = (case r of Inl (e, s) \<Rightarrow> E s | Inr s \<Rightarrow> Q s)"

text \<open>The events the batches of one phase add.\<close>

definition batch_events :: "phase \<Rightarrow> nat \<Rightarrow> real \<Rightarrow> 'b list \<Rightarrow> event list" where
  "batch_events ph e r bs =
     concat (map (\<lambda>b. if ph = train then [Forward ph e, OptimizerStep e r] else [Forward ph e]) bs)"

text \<open>The model, optimizer and scheduler objects are the same in two states.\<close>

definition same_model :: "('w, 'o, 'g) state \<Rightarrow> ('w, 'o, 'g) state \<Rightarrow> bool" where
  "same_model s t \<longleftrightarrow> weights t = weights s \<and> opt_state t = opt_state s \<and> grads t = grads s
     \<and> lr t = lr s \<and> last_epoch t = last_epoch s \<and> step_size t = step_size s \<and> gamma t = gamma s
     \<and> training t = training s"

text \<open>The learning rate the schedule prescribes for epoch \<open>e\<close>.\<close>

definition rate :: "nat \<Rightarrow> real" where
  "rate e = 0.001 * 0.1 ^ (e div 7)"

fun lr_ok :: "event \<Rightarrow> bool" where
  "lr_ok (LearningRate e r) = (r = rate e)"
| "lr_ok (OptimizerStep e r) = (r = rate e)"
| "lr_ok _ = True"

definition lr_tr :: "('w, 'o, 'g) state \<Rightarrow> bool" where
  "lr_tr s \<longleftrightarrow> (\<forall>ev \<in> set (trace s). lr_ok ev)"

definition lr_inv :: "nat \<Rightarrow> ('w, 'o, 'g) state \<Rightarrow> bool" where
  "lr_inv k s \<longleftrightarrow> last_epoch s = k \<and> step_size s = 7 \<and> gamma s = 0.1 \<and> lr s = rate k \<and> lr_tr s"

text \<open>The epoch summaries that are in range, and the running totals that lead to them.\<close>

fun corr_val :: "corrects \<Rightarrow> nat" where
  "corr_val (PyInt c) = c"
| "corr_val (Tensor c) = c"

fun metric_ok :: "event \<Rightarrow> bool" where
  "metric_ok (Report ph e l a) = (0 \<le> a \<and> a \<le> 1 \<and> 0 \<le> l)"
| "metric_ok _ = True"

definition met_tr :: "('w, 'o, 'g) state \<Rightarrow> bool" where
  "met_tr s \<longleftrightarrow> (\<forall>ev \<in> set (trace s). metric_ok ev)"

definition met_run :: "nat \<Rightarrow> ('w, 'o, 'g) state \<Rightarrow> bool" where
  "met_run sz s \<longleftrightarrow> met_tr s \<and> 0 \<le> running_loss s \<and> corr_val (running_corrects s) \<le> sz"







section \<open>Loops and outcomes\<close>

lemma outcome_simps [simp]:
  "outcome E Q (Inl (e, s)) = E s"
  "outcome E Q (Inr s) = Q s"
  by (simp_all add: outcome_def)

lemma outcome_final: "outcome P P r \<Longrightarrow> P (final r)"
  by (auto simp: outcome_def final_def split: sum.splits)

lemma outcome_weaken:
  "outcome E Q r \<Longrightarrow> (\<And>s. E s \<Longrightarrow> E' s) \<Longrightarrow> (\<And>s. Q s \<Longrightarrow> Q' s) \<Longrightarrow> outcome E' Q' r"
  by (auto simp: outcome_def split: sum.splits)

lemma outcome_bind:
  assumes "outcome E Q r" and "\<And>s. Q s \<Longrightarrow> outcome E R (f s)"
  shows "outcome E R (case r of Inl e \<Rightarrow> Inl e | Inr s \<Rightarrow> f s)"
proof (cases r)
  case (Inl x)
  with assms(1) show ?thesis by (simp add: outcome_def)
next
  case (Inr s)
  with assms(1) have "Q s" by simp
  then show ?thesis using assms(2) [of s] Inr by simp
qed

lemma for_each_append:
  "for_each body (xs @ ys) s =
     (case for_each body xs s of Inl e \<Rightarrow> Inl e | Inr s' \<Rightarrow> for_each body ys s')"
  by (induction xs arbitrary: s) (auto split: sum.splits)

lemma for_each_upt_rule:
  assumes "I 0 s"
    and "\<And>i t. i < n \<Longrightarrow> I i t \<Longrightarrow> outcome E (I (Suc i)) (body i t)"
  shows "outcome E (I n) (for_each body [0..<n] s)"
  using assms
proof (induction n)
  case 0
  then show ?case by simp
next
  case (Suc n)
  have "outcome E (I n) (for_each body [0..<n] s)"
    using Suc by simp
  then have "outcome E (I (Suc n))
     (case for_each body [0..<n] s of Inl e \<Rightarrow> Inl e | Inr s' \<Rightarrow> for_each body [n] s')"
  proof (rule outcome_bind)
    fix t assume "I n t"
    then have "outcome E (I (Suc n)) (body n t)"
      using Suc.prems(2) [of n t] by simp
    then show "outcome E (I (Suc n)) (for_each body [n] t)"
      by (auto simp: outcome_def split: sum.splits)
  qed
  then show ?case by (simp add: for_each_append)
qed

lemma batch_step_frame:
  "lr (batch_step L e ph b s) = lr s"
  "last_epoch (batch_step L e ph b s) = last_epoch s"
  "step_size (batch_step L e ph b s) = step_size s"
  "gamma (batch_step L e ph b s) = gamma s"
  "best_model_wts (batch_step L e ph b s) = best_model_wts s"
  "best_acc (batch_step L e ph b s) = best_acc s"
  "save_dir (batch_step L e ph b s) = save_dir s"
  "dirs (batch_step L e ph b s) = dirs s"
  "files (batch_step L e ph b s) = files s"
  "epoch_loss (batch_step L e ph b s) = epoch_loss s"
  "epoch_acc (batch_step L e ph b s) = epoch_acc s"
  "training (batch_step L e ph b s) = training s"
  by (simp_all add: batch_step_def emit_def Let_def split: prod.splits)

lemma batch_step_trace:
  "trace (batch_step L e ph b s) =
     trace s @ (if ph = train then [Forward ph e, OptimizerStep e (lr s)] else [Forward ph e])"
  by (simp add: batch_step_def emit_def Let_def split: prod.splits)

lemma batch_step_val:
  "weights (batch_step L e val b s) = weights s"
  "opt_state (batch_step L e val b s) = opt_state s"
  "grads (batch_step L e val b s) = None"
  by (simp_all add: batch_step_def emit_def Let_def)

lemma fold_batch_frame:
  "lr (fold (batch_step L e ph) bs s) = lr s"
  "last_epoch (fold (batch_step L e ph) bs s) = last_epoch s"
  "step_size (fold (batch_step L e ph) bs s) = step_size s"
  "gamma (fold (batch_step L e ph) bs s) = gamma s"
  "best_model_wts (fold (batch_step L e ph) bs s) = best_model_wts s"
  "best_acc (fold (batch_step L e ph) bs s) = best_acc s"
  "save_dir (fold (batch_step L e ph) bs s) = save_dir s"
  "dirs (fold (batch_step L e ph) bs s) = dirs s"
  "files (fold (batch_step L e ph) bs s) = files s"
  "epoch_loss (fold (batch_step L e ph) bs s) = epoch_loss s"
  "epoch_acc (fold (batch_step L e ph) bs s) = epoch_acc s"
  "training (fold (batch_step L e ph) bs s) = training s"
  by (induction bs arbitrary: s; simp add: batch_step_frame)+

lemma fold_batch_trace:
  "trace (fold (batch_step L e ph) bs s) = trace s @ batch_events ph e (lr s) bs"
  by (induction bs arbitrary: s) (simp_all add: batch_events_def batch_step_trace batch_step_frame)

lemma fold_batch_val:
  "weights (fold (batch_step L e val) bs s) = weights s"
  "opt_state (fold (batch_step L e val) bs s) = opt_state s"
  "grads (fold (batch_step L e val) bs s) = (if bs = [] then grads s else None)"
  by (induction bs arbitrary: s; simp add: batch_step_val)+

section \<open>What the closing steps of a phase leave alone\<close>

lemma same_model_refl [simp]: "same_model s s"
  by (simp add: same_model_def)

lemma same_model_trans: "same_model s t \<Longrightarrow> same_model t u \<Longrightarrow> same_model s u"
  by (simp add: same_model_def)

lemma summarise_same_model: "outcome (same_model s) (same_model s) (summarise sz e ph s)"
  by (simp add: summarise_def same_model_def emit_def Let_def split: corrects.splits)

lemma save_best_same_model: "outcome (same_model s) (same_model s) (save_best e ph s)"
  by (simp add: save_best_def torch_save_def makedirs_def same_model_def emit_def Let_def)

lemma save_epoch_same_model: "outcome (same_model s) (same_model s) (save_epoch e ph s)"
  by (simp add: save_epoch_def torch_save_def same_model_def emit_def Let_def split: option.splits)

lemma closing_same_model:
  "outcome (same_model s) (same_model s)
     (case summarise sz e ph s of Inl x \<Rightarrow> Inl x
      | Inr s5 \<Rightarrow> (case save_best e ph s5 of Inl x \<Rightarrow> Inl x | Inr s6 \<Rightarrow> save_epoch e ph s6))"
proof (rule outcome_bind [OF summarise_same_model])
  fix s5 :: "('a, 'b, 'c) state" assume a5: "same_model s s5"
  show "outcome (same_model s) (same_model s)
          (case save_best e ph s5 of Inl x \<Rightarrow> Inl x | Inr s6 \<Rightarrow> save_epoch e ph s6)"
  proof (rule outcome_bind)
    show "outcome (same_model s) (same_model s) (save_best e ph s5)"
      by (rule outcome_weaken [OF save_best_same_model]) (rule same_model_trans [OF a5], assumption)+
  next
    fix s6 :: "('a, 'b, 'c) state" assume a6: "same_model s s6"
    show "outcome (same_model s) (same_model s) (save_epoch e ph s6)"
      by (rule outcome_weaken [OF save_epoch_same_model]) (rule same_model_trans [OF a6], assumption)+
  qed
qed

section \<open>The validation phase changes no parameter\<close>

lemma run_phase_val_same:
  "same_model (s\<lparr>training := False, grads := (if dl val e = [] then grads s else None)\<rparr>)
     (final (run_phase L dl ds e val s))"
  using outcome_final [OF closing_same_model [where sz = "ds val" and e = e and ph = val and s =
     "fold (batch_step L e val) (dl val e) (s\<lparr>training := False, running_loss := 0, running_corrects := PyInt 0\<rparr>)"]]
  by (simp add: run_phase_def Let_def same_model_def fold_batch_val fold_batch_frame)

text \<open>
  Claim C9. One batch of the Validate phase, and the whole Validate phase of any epoch,
  leave the model's weights and the optimizer's buffers as they were, whatever the
  phase ends with; the learning rate and the scheduler's counter are untouched as well.
  No gradient is computed: after every validation batch, and so after a phase with at
  least one batch, the gradients are cleared (line 62) and nothing has been written to
  them.
\<close>

theorem validate_phase_keeps_parameters:
  "weights (batch_step L e val b s) = weights s
   \<and> opt_state (batch_step L e val b s) = opt_state s
   \<and> grads (batch_step L e val b s) = None
   \<and> weights (final (run_phase L dl ds e val s)) = weights s
   \<and> opt_state (final (run_phase L dl ds e val s)) = opt_state s
   \<and> lr (final (run_phase L dl ds e val s)) = lr s
   \<and> last_epoch (final (run_phase L dl ds e val s)) = last_epoch s
   \<and> grads (final (run_phase L dl ds e val s)) = (if dl val e = [] then grads s else None)"
  using run_phase_val_same [where s = s and dl = dl and e = e and L = L and ds = ds]
  by (simp add: batch_step_val same_model_def)

section \<open>The periodic checkpoint and the unbound \<^verbatim>\<open>save_dir\<close>\<close>

text \<open>
  Claim C3. The claim promises the file \<^verbatim>\<open>model_epoch_N.pth\<close> for every even
  \<open>N \<le> E\<close>, whether or not validation has improved before. In a run of two epochs
  whose first validation accuracy is 0.0, line 94 reads \<^verbatim>\<open>save_dir\<close> before line 88
  has ever assigned it: the run ends in \<^verbatim>\<open>UnboundLocalError\<close> during epoch index 1
  and \<^verbatim>\<open>work_dir/model_epoch_2.pth\<close> does not exist.
\<close>

theorem periodic_checkpoint_unbound_save_dir:
  "raised (train_model toy hard_loaders toy_sizes 2 fresh) = Some UnboundLocalError
   \<and> val_reports (trace (final (train_model toy hard_loaders toy_sizes 2 fresh))) = [(0, 0)]
   \<and> files (final (train_model toy hard_loaders toy_sizes 2 fresh)) ''work_dir/model_epoch_2.pth'' = None"
  by code_simp

text \<open>
  Claim C10. With no validation accuracy above 0.0 the best checkpoint is never
  written, and a run of a single epoch returns the weights it was given. A run of two
  epochs does not return at all: it raises at line 94 in epoch index 1, again because
  \<^verbatim>\<open>save_dir\<close> is unbound.
\<close>

theorem no_improvement_run_does_not_return:
  "best_writes (trace (final (train_model toy hard_loaders toy_sizes 1 fresh))) = []
   \<and> raised (train_model toy hard_loaders toy_sizes 1 fresh) = None
   \<and> weights (final (train_model toy hard_loaders toy_sizes 1 fresh)) = weights fresh
   \<and> best_writes (trace (final (train_model toy hard_loaders toy_sizes 2 fresh))) = []
   \<and> files (final (train_model toy hard_loaders toy_sizes 2 fresh)) ''work_dir/best_model.pth'' = None
   \<and> raised (train_model toy hard_loaders toy_sizes 2 fresh) = Some UnboundLocalError"
  by code_simp

section \<open>Rules for a phase and an epoch\<close>

lemma run_phase_rule:
  assumes "P (let s3 = fold (batch_step L e ph) (dl ph e)
                    (s\<lparr>training := (ph = train), running_loss := 0, running_corrects := PyInt 0\<rparr>)
              in if ph = train then emit (SchedulerStep e) (scheduler_step s3) else s3)"
    and "\<And>t. P t \<Longrightarrow> outcome E P5 (summarise (ds ph) e ph t)"
    and "\<And>t. P5 t \<Longrightarrow> outcome E P6 (save_best e ph t)"
    and "\<And>t. P6 t \<Longrightarrow> outcome E Q (save_epoch e ph t)"
  shows "outcome E Q (run_phase L dl ds e ph s)"
  unfolding run_phase_def Let_def
  apply (rule outcome_bind [where Q = P5])
   apply (rule assms(2))
   apply (use assms(1) in \<open>simp add: Let_def\<close>)
  apply (rule outcome_bind [where Q = P6])
   apply (erule assms(3))
  apply (erule assms(4))
  done

lemma run_epoch_rule:
  assumes "P (emit (LearningRate e (lr s)) s)"
    and "\<And>t. P t \<Longrightarrow> outcome E P1 (run_phase L dl ds e train t)"
    and "\<And>t. P1 t \<Longrightarrow> outcome E Q (run_phase L dl ds e val t)"
  shows "outcome E Q (run_epoch L dl ds e s)"
  unfolding run_epoch_def
  apply simp
  apply (rule outcome_bind [where Q = P1])
   apply (rule assms(2) [OF assms(1)])
  apply (drule assms(3))
  apply (auto simp: outcome_def split: sum.splits)
  done

section \<open>The learning-rate schedule\<close>

lemma rate_Suc:
  "rate (Suc e) = (if Suc e mod 7 = 0 then rate e * 0.1 else rate e)"
  by (simp add: rate_def div_Suc)

lemma batch_events_lr_ok: "ev \<in> set (batch_events ph e (rate e) bs) \<Longrightarrow> lr_ok ev"
  by (induction bs) (auto simp: batch_events_def split: if_splits)

lemma lr_summarise: "lr_inv k s \<Longrightarrow> outcome lr_tr (lr_inv k) (summarise sz e ph s)"
  by (simp add: summarise_def lr_inv_def lr_tr_def emit_def Let_def split: corrects.splits)

lemma lr_save_best: "lr_inv k s \<Longrightarrow> outcome lr_tr (lr_inv k) (save_best e ph s)"
  by (simp add: save_best_def torch_save_def makedirs_def lr_inv_def lr_tr_def emit_def Let_def)

lemma lr_save_epoch: "lr_inv k s \<Longrightarrow> outcome lr_tr (lr_inv k) (save_epoch e ph s)"
  by (simp add: save_epoch_def torch_save_def lr_inv_def lr_tr_def emit_def Let_def split: option.splits)

lemma lr_train_phase: "lr_inv e s \<Longrightarrow> outcome lr_tr (lr_inv (Suc e)) (run_phase L dl ds e train s)"
  apply (rule run_phase_rule [where P = "lr_inv (Suc e)" and ?P5.0 = "lr_inv (Suc e)" and ?P6.0 = "lr_inv (Suc e)"])
     apply (auto simp: lr_inv_def lr_tr_def Let_def emit_def scheduler_step_def fold_batch_frame fold_batch_trace rate_Suc
       dest: batch_events_lr_ok)[1]
    apply (erule lr_summarise)
   apply (erule lr_save_best)
  apply (erule lr_save_epoch)
  done

lemma batch_events_val_lr_ok: "ev \<in> set (batch_events val e r bs) \<Longrightarrow> lr_ok ev"
  by (induction bs) (auto simp: batch_events_def split: if_splits)

lemma lr_val_phase: "lr_inv k s \<Longrightarrow> outcome lr_tr (lr_inv k) (run_phase L dl ds e val s)"
  apply (rule run_phase_rule [where P = "lr_inv k" and ?P5.0 = "lr_inv k" and ?P6.0 = "lr_inv k"])
     apply (auto simp: lr_inv_def lr_tr_def Let_def fold_batch_frame fold_batch_trace
       dest: batch_events_val_lr_ok)[1]
    apply (erule lr_summarise)
   apply (erule lr_save_best)
  apply (erule lr_save_epoch)
  done

lemma lr_epoch: "lr_inv e s \<Longrightarrow> outcome lr_tr (lr_inv (Suc e)) (run_epoch L dl ds e s)"
  apply (rule run_epoch_rule [where P = "lr_inv e" and ?P1.0 = "lr_inv (Suc e)"])
    apply (simp add: lr_inv_def lr_tr_def emit_def)
   apply (erule lr_train_phase)
  apply (erule lr_val_phase)
  done

lemma lr_loop: "lr_inv 0 s \<Longrightarrow> outcome lr_tr (lr_inv n) (epoch_loop L dl ds n s)"
  unfolding epoch_loop_def
  by (rule for_each_upt_rule [where I = lr_inv]) (auto intro: lr_epoch)

lemma lr_train_model:
  assumes "lr st = 0.001" "last_epoch st = 0" "step_size st = 7" "gamma st = 0.1"
  shows "lr_tr (final (train_model L dl ds n st))"
proof -
  have "lr_inv 0 (enter st)"
    using assms by (simp add: lr_inv_def lr_tr_def enter_def rate_def)
  then have "outcome lr_tr (lr_inv n) (epoch_loop L dl ds n (enter st))"
    by (rule lr_loop)
  then show ?thesis
    by (auto simp: train_model_def final_def outcome_def lr_inv_def lr_tr_def split: sum.splits)
qed

text \<open>
  Claim C4. With the optimizer and the scheduler as lines 155-158 build them (initial
  rate 0.001, step size 7, factor 0.1, counter 0), the learning rate printed at the head
  of epoch \<open>e\<close> (line 46) and the rate every optimizer step of epoch \<open>e\<close> uses are
  \<open>0.001 * 0.1 ^ (e div 7)\<close>, in every run, also one that ends in an exception. The
  rate is an exact real here.
\<close>

theorem learning_rate_follows_step_schedule:
  assumes "lr st = 0.001" and "last_epoch st = 0" and "step_size st = 7" and "gamma st = 0.1"
    and "ev \<in> set (trace (final (train_model L dl ds E st)))"
    and "ev = LearningRate e r \<or> ev = OptimizerStep e r"
  shows "r = 0.001 * 0.1 ^ (e div 7)"
proof -
  have "lr_tr (final (train_model L dl ds E st))"
    using assms(1-4) by (rule lr_train_model)
  with assms(5) have "lr_ok ev"
    by (simp add: lr_tr_def)
  with assms(6) show ?thesis
    by (auto simp: rate_def)
qed

theorem learning_rate_follows_step_schedule_witness:
  "lr fresh = 0.001 \<and> last_epoch fresh = 0 \<and> step_size fresh = 7 \<and> gamma fresh = 0.1
   \<and> OptimizerStep 7 (1 / 10000) \<in> set (trace (final (train_model toy toy_loaders toy_sizes 8 fresh)))
   \<and> (1 / 10000 :: real) = 0.001 * 0.1 ^ (7 div 7)"
proof -
  have f: "lr fresh = 0.001" "last_epoch fresh = 0" "step_size fresh = 7" "gamma fresh = 0.1"
    by (simp_all add: fresh_def)
  have h: "OptimizerStep 7 (1 / 10000) \<in> set (trace (final (train_model toy toy_loaders toy_sizes 8 fresh)))"
    by code_simp
  from learning_rate_follows_step_schedule [OF f h, of 7 "1 / 10000"] f h show ?thesis
    by simp
qed

section \<open>Reported accuracy and loss\<close>

lemma sum_eq_le: "sum_eq ps ls \<le> length ls"
  unfolding sum_eq_def
  by (rule order_trans [OF length_filter_le]) simp

lemma corr_val_add: "corr_val (add_corrects c n) = corr_val c + n"
  by (cases c) simp_all

lemma batch_step_running:
  assumes "\<forall>out ls. 0 \<le> criterion L out ls"
  shows "running_loss s \<le> running_loss (batch_step L e ph b s)"
    and "corr_val (running_corrects (batch_step L e ph b s)) \<le> corr_val (running_corrects s) + length b"
proof -
  have "0 \<le> criterion L (model_call L (training s) (weights s) (map fst b)) (map snd b) * real (length b)"
    using assms by simp
  then show "running_loss s \<le> running_loss (batch_step L e ph b s)"
    by (simp add: batch_step_def emit_def Let_def split: prod.splits)
  have "sum_eq (torch_max L (model_call L (training s) (weights s) (map fst b))) (map snd b) \<le> length b"
    using sum_eq_le [of _ "map snd b"] by simp
  then show "corr_val (running_corrects (batch_step L e ph b s)) \<le> corr_val (running_corrects s) + length b"
    by (simp add: batch_step_def emit_def Let_def corr_val_add split: prod.splits)
qed

lemma fold_batch_running:
  assumes "\<forall>out ls. 0 \<le> criterion L out ls"
  shows "running_loss s \<le> running_loss (fold (batch_step L e ph) bs s)
     \<and> corr_val (running_corrects (fold (batch_step L e ph) bs s))
         \<le> corr_val (running_corrects s) + sum_list (map length bs)"
proof (induction bs arbitrary: s)
  case Nil
  then show ?case by simp
next
  case (Cons b bs)
  from batch_step_running [OF assms, where s = s and e = e and ph = ph and b = b] Cons [of "batch_step L e ph b s"]
  show ?case by simp
qed

lemma batch_events_metric_ok: "ev \<in> set (batch_events ph e r bs) \<Longrightarrow> metric_ok ev"
  by (induction bs) (auto simp: batch_events_def split: if_splits)

lemma met_summarise: "met_run sz s \<Longrightarrow> outcome met_tr met_tr (summarise sz e ph s)"
  by (auto simp: summarise_def met_run_def met_tr_def emit_def Let_def outcome_def
      split: corrects.splits)

lemma met_save_best: "met_tr s \<Longrightarrow> outcome met_tr met_tr (save_best e ph s)"
  by (simp add: save_best_def torch_save_def makedirs_def met_tr_def emit_def Let_def)

lemma met_save_epoch: "met_tr s \<Longrightarrow> outcome met_tr met_tr (save_epoch e ph s)"
  by (simp add: save_epoch_def torch_save_def met_tr_def emit_def Let_def split: option.splits)

lemma met_phase:
  assumes "\<forall>out ls. 0 \<le> criterion L out ls"
    and "sum_list (map length (dl ph e)) = ds ph"
    and "met_tr s"
  shows "outcome met_tr met_tr (run_phase L dl ds e ph s)"
proof (rule run_phase_rule [where P = "met_run (ds ph)" and ?P5.0 = met_tr and ?P6.0 = met_tr])
  let ?s2 = "s\<lparr>training := (ph = train), running_loss := 0, running_corrects := PyInt 0\<rparr>"
  let ?s3 = "fold (batch_step L e ph) (dl ph e) ?s2"
  from fold_batch_running [OF assms(1), where s = ?s2 and e = e and ph = ph and bs = "dl ph e"] assms(2)
  have r: "0 \<le> running_loss ?s3" "corr_val (running_corrects ?s3) \<le> ds ph"
    by simp_all
  have t: "met_tr ?s3"
    using assms(3) by (auto simp: met_tr_def fold_batch_trace dest: batch_events_metric_ok)
  from r t show "met_run (ds ph) (let s3 = ?s3 in if ph = train then emit (SchedulerStep e) (scheduler_step s3) else s3)"
    by (cases ph) (simp_all add: met_run_def met_tr_def Let_def emit_def scheduler_step_def)
qed (erule met_summarise met_save_best met_save_epoch)+

lemma met_epoch:
  assumes "\<forall>out ls. 0 \<le> criterion L out ls"
    and "\<forall>ph e. sum_list (map length (dl ph e)) = ds ph"
    and "met_tr s"
  shows "outcome met_tr met_tr (run_epoch L dl ds e s)"
proof (rule run_epoch_rule [where P = met_tr and ?P1.0 = met_tr])
  show "met_tr (emit (LearningRate e (lr s)) s)"
    using assms(3) by (simp add: met_tr_def emit_def)
qed (use assms(1,2) in \<open>auto intro: met_phase\<close>)

lemma met_train_model:
  assumes "\<forall>out ls. 0 \<le> criterion L out ls"
    and "\<forall>ph e. sum_list (map length (dl ph e)) = ds ph"
  shows "met_tr (final (train_model L dl ds n st))"
proof -
  have "outcome met_tr met_tr (epoch_loop L dl ds n (enter st))"
    unfolding epoch_loop_def
    by (rule for_each_upt_rule [where I = "\<lambda>_. met_tr"])
      (use assms in \<open>auto intro: met_epoch simp: met_tr_def enter_def\<close>)
  then show ?thesis
    by (auto simp: train_model_def final_def outcome_def met_tr_def split: sum.splits)
qed

text \<open>
  Claim C8. Every accuracy the run reports (line 82), for every epoch and both phases,
  lies between 0 and 1, and every reported loss is non-negative, provided the criterion
  never returns a negative loss (cross-entropy does not) and each loader yields as many
  samples per epoch as \<^verbatim>\<open>dataset_sizes\<close> records for its phase (line 141 and the
  loaders of lines 135-138).
\<close>

theorem reported_metrics_in_range:
  assumes "\<forall>out labels. 0 \<le> criterion L out labels"
    and "\<forall>ph e. sum_list (map length (dl ph e)) = ds ph"
    and "Report ph e l a \<in> set (trace (final (train_model L dl ds E st)))"
  shows "0 \<le> a \<and> a \<le> 1 \<and> 0 \<le> l"
  using met_train_model [OF assms(1,2), of E st] assms(3)
  by (auto simp: met_tr_def)

theorem reported_metrics_in_range_witness:
  "(\<forall>out labels. 0 \<le> criterion toy out labels)
   \<and> (\<forall>ph e. sum_list (map length (toy_loaders ph e)) = toy_sizes ph)
   \<and> Report val 0 1 (1 / 2) \<in> set (trace (final (train_model toy toy_loaders toy_sizes 1 fresh)))
   \<and> (0::real) \<le> 1 / 2 \<and> (1 / 2 :: real) \<le> 1 \<and> (0::real) \<le> 1"
proof -
  have c: "\<forall>out labels. 0 \<le> criterion toy out labels"
    by (simp add: toy_def)
  have d: "\<forall>ph e. sum_list (map length (toy_loaders ph e)) = toy_sizes ph"
    by (simp add: toy_loaders_def toy_sizes_def)
  have h: "Report val 0 1 (1 / 2) \<in> set (trace (final (train_model toy toy_loaders toy_sizes 1 fresh)))"
    by code_simp
  from reported_metrics_in_range [OF c d h] c d h show ?thesis
    by simp
qed

section \<open>The order of the phases\<close>

















end
